theory Spec2Isabelle
  imports Complex_Main "HOL-Library.Sublist"
begin

section \<open>Risk scoring engine of MommyAssist (server/routes.ts, \<open>assessRisk\<close>)\<close>

text \<open>
  The engine is the function \<open>assessRisk\<close> of the route module. It reads an observation
  object with five optional fields and returns a risk level, a list of risk factors and a
  recommendation text. The embedding follows the function statement by statement.

  Conventions of the embedding.
  \<^item> An optional field is an \<open>option\<close>: \<open>None\<close> stands for a key that is missing,
    \<open>undefined\<close> or \<open>null\<close> (the three are indistinguishable to every test the function
    makes: all are falsy and none is \<open>=== "reduced"\<close>).
  \<^item> A JavaScript string is a \<open>string\<close>; a character outside ASCII stands as its
    UTF-8 bytes, among which no ASCII byte occurs, so a search for an ASCII text finds the
    same occurrences. \<open>String.prototype.includes\<close> is the contiguous-substring test
    \<open>includes_str\<close>; \<open>toLowerCase\<close> maps the letters \<open>A\<close>..\<open>Z\<close> to \<open>a\<close>..\<open>z\<close> and
    leaves every other character as it is (the case mappings of JavaScript outside ASCII
    are not modelled).
  \<^item> \<open>weight\<close> is a \<open>number\<close>; it is modelled as an exact rational, so the values NaN
    and the infinities are not inputs of the model. \<open>pregnancyWeeks\<close> is read by the caller
    from the integer column \<open>users.pregnancy_weeks\<close> and is an \<open>int\<close>. On such inputs
    \<open>0.5 * pregnancyWeeks\<close> and \<open>expectedWeight * 1.5\<close> are computed without rounding, so
    the exact product is the value the code compares with.
  \<^item> The levels are the string literals of the source: \<open>low\<close>, \<open>medium\<close>, \<open>high\<close>.
\<close>

subsection \<open>Strings\<close>

text \<open>\<open>s.includes(t)\<close>: \<open>t\<close> occurs in \<open>s\<close> as a contiguous run of characters.\<close>

fun includes_str :: "string \<Rightarrow> string \<Rightarrow> bool" where
  "includes_str [] t = (t = [])"
| "includes_str (c # cs) t = (prefix t (c # cs) \<or> includes_str cs t)"

definition toLowerCase_char :: "char \<Rightarrow> char" where
  "toLowerCase_char c =
     (let n = (of_char c :: nat) in if 65 \<le> n \<and> n \<le> 90 then char_of (n + 32) else c)"

definition toLowerCase :: "string \<Rightarrow> string" where
  "toLowerCase s = map toLowerCase_char s"

subsection \<open>Input and output of the engine\<close>

record data =
  bloodPressure :: "string option"
  weight :: "rat option"
  babyMovement :: "string option"
  symptoms :: "string option"
  pregnancyWeeks :: "int option"

record risk_analysis =
  riskLevel :: string
  riskFactors :: "string list"
  recommendations :: string

text \<open>The two local variables the function mutates: \<open>riskLevel\<close> and \<open>riskFactors\<close>.\<close>

record locals =
  cur_riskLevel :: string
  cur_riskFactors :: "string list"

definition initial_locals :: locals where
  "initial_locals = \<lparr>cur_riskLevel = ''low'', cur_riskFactors = []\<rparr>"

subsection \<open>The conditions of the four \<open>if\<close> statements\<close>

text \<open>
  \<open>data.bloodPressure && (data.bloodPressure.includes("high") || data.bloodPressure.includes("140"))\<close>:
  a string is truthy when it is not empty.
\<close>

definition bloodPressure_triggers :: "'a data_scheme \<Rightarrow> bool" where
  "bloodPressure_triggers d =
     (case bloodPressure d of
        None \<Rightarrow> False
      | Some bp \<Rightarrow> bp \<noteq> [] \<and> (includes_str bp ''high'' \<or> includes_str bp ''140''))"

text \<open>
  \<open>data.weight && data.pregnancyWeeks\<close>, then \<open>expectedWeight = 0.5 * data.pregnancyWeeks\<close> and
  \<open>data.weight > expectedWeight * 1.5\<close>: a number is truthy when it is not \<open>0\<close>.
\<close>

definition weight_triggers :: "'a data_scheme \<Rightarrow> bool" where
  "weight_triggers d =
     (case weight d of
        None \<Rightarrow> False
      | Some w \<Rightarrow>
          (case pregnancyWeeks d of
             None \<Rightarrow> False
           | Some p \<Rightarrow>
               w \<noteq> 0 \<and> p \<noteq> 0 \<and>
               (let expectedWeight = (1 / 2) * of_int p in w > expectedWeight * (3 / 2))))"

text \<open>\<open>data.babyMovement === "reduced"\<close>\<close>

definition babyMovement_triggers :: "'a data_scheme \<Rightarrow> bool" where
  "babyMovement_triggers d = (babyMovement d = Some ''reduced'')"

text \<open>\<open>data.symptoms && data.symptoms.toLowerCase().includes("bleeding")\<close>\<close>

definition symptoms_triggers :: "'a data_scheme \<Rightarrow> bool" where
  "symptoms_triggers d =
     (case symptoms d of
        None \<Rightarrow> False
      | Some s \<Rightarrow> s \<noteq> [] \<and> includes_str (toLowerCase s) ''bleeding'')"

subsection \<open>The four \<open>if\<close> statements as steps on the locals\<close>

definition step_bloodPressure :: "'a data_scheme \<Rightarrow> locals \<Rightarrow> locals" where
  "step_bloodPressure d st =
     (if bloodPressure_triggers d
      then \<lparr>cur_riskLevel = ''high'',
            cur_riskFactors = cur_riskFactors st @ [''High blood pressure'']\<rparr>
      else st)"

definition step_weight :: "'a data_scheme \<Rightarrow> locals \<Rightarrow> locals" where
  "step_weight d st =
     (if weight_triggers d
      then \<lparr>cur_riskLevel = (if cur_riskLevel st = ''high'' then ''high'' else ''medium''),
            cur_riskFactors = cur_riskFactors st @ [''Excessive weight gain'']\<rparr>
      else st)"

definition step_babyMovement :: "'a data_scheme \<Rightarrow> locals \<Rightarrow> locals" where
  "step_babyMovement d st =
     (if babyMovement_triggers d
      then \<lparr>cur_riskLevel = ''high'',
            cur_riskFactors = cur_riskFactors st @ [''Reduced fetal movement'']\<rparr>
      else st)"

definition step_symptoms :: "'a data_scheme \<Rightarrow> locals \<Rightarrow> locals" where
  "step_symptoms d st =
     (if symptoms_triggers d
      then \<lparr>cur_riskLevel = ''high'',
            cur_riskFactors = cur_riskFactors st @ [''Bleeding symptoms'']\<rparr>
      else st)"

text \<open>The locals after all four statements.\<close>

definition final_locals :: "'a data_scheme \<Rightarrow> locals" where
  "final_locals d =
     step_symptoms d (step_babyMovement d (step_weight d (step_bloodPressure d initial_locals)))"

subsection \<open>\<open>assessRisk\<close>\<close>

definition assessRisk :: "'a data_scheme \<Rightarrow> risk_analysis" where
  "assessRisk d =
     (let st = final_locals d;
          level = cur_riskLevel st;
          recs =
            (if level = ''high''
             then ''Please contact your healthcare provider immediately and schedule an urgent appointment.''
             else if level = ''medium''
             then ''Monitor symptoms closely and schedule a follow-up appointment within the week.''
             else ''Continue with regular prenatal care and maintain healthy habits.'')
      in \<lparr>riskLevel = level, riskFactors = cur_riskFactors st, recommendations = recs\<rparr>)"

subsection \<open>The order of the levels\<close>

text \<open>
  The source has no order on the levels; the one used to state that a level is raised or
  lowered is \<open>high > medium > low\<close>. Any other string counts as the lowest.
\<close>

definition severity :: "string \<Rightarrow> nat" where
  "severity l = (if l = ''high'' then 2 else if l = ''medium'' then 1 else 0)"

text \<open>
  The level each statement assigns when its condition holds, in the order of the
  statements: \<open>high\<close> for blood pressure, \<open>medium\<close> for weight (raised from \<open>low\<close>),
  \<open>high\<close> for fetal movement and for bleeding.
\<close>

definition triggered_levels :: "'a data_scheme \<Rightarrow> string list" where
  "triggered_levels d =
     (if bloodPressure_triggers d then [''high''] else []) @
     (if weight_triggers d then [''medium''] else []) @
     (if babyMovement_triggers d then [''high''] else []) @
     (if symptoms_triggers d then [''high''] else [])"

section \<open>The route \<open>POST /api/risk-assessments\<close>\<close>

text \<open>
  The handler reads the user of the authenticated request, calls \<open>assessRisk\<close> on
  \<open>{...req.body, pregnancyWeeks: user?.pregnancyWeeks}\<close>, validates
  \<open>{...req.body, userId, riskLevel, riskFactors, recommendations}\<close> (the last three taken
  from the engine) against \<open>insertRiskAssessmentSchema\<close> and inserts the result.

  In an object literal a key written after a spread replaces the key of the spread object.
  The request body is a record that extends \<open>data\<close> by the further keys of the schema a
  client can send; a later key is a record update. The body carries well-typed values:
  a body whose observation fields are of another type is rejected by the schema or fails in
  the engine, and nothing is stored. The time stamps of a row are filled by the database
  and are left out.
\<close>

record user =
  user_id :: string
  user_pregnancyWeeks :: "int option"

record request_body = data +
  req_userId :: "string option"
  req_riskLevel :: "string option"
  req_riskFactors :: "string list option"
  req_recommendations :: "string option"

text \<open>\<open>InsertRiskAssessment\<close>: the keys of the schema (other keys are stripped by the parse).\<close>

record insert_risk_assessment =
  ins_userId :: string
  ins_bloodPressure :: "string option"
  ins_weight :: "rat option"
  ins_babyMovement :: "string option"
  ins_symptoms :: "string option"
  ins_riskLevel :: string
  ins_riskFactors :: "string list option"
  ins_recommendations :: "string option"

text \<open>A row of the table \<open>risk_assessments\<close>.\<close>

record risk_assessment =
  ra_id :: string
  ra_userId :: string
  ra_bloodPressure :: "string option"
  ra_weight :: "rat option"
  ra_babyMovement :: "string option"
  ra_symptoms :: "string option"
  ra_riskLevel :: string
  ra_riskFactors :: "string list option"
  ra_recommendations :: "string option"

record database =
  users :: "string \<rightharpoonup> user"
  riskAssessments :: "risk_assessment list"

text \<open>
  What the handler takes from outside this repository: the checks that drizzle-zod derives
  from the column types (for instance on the integer column \<open>weight\<close>), and the identifier
  the database generates for a new row. Both are parameters, so what is proved about the
  handler holds for any such checks and any identifier.
\<close>

record collaborators =
  column_checks :: "insert_risk_assessment \<Rightarrow> bool"
  generated_id :: string

datatype error = ZodError | DatabaseError

datatype response = Created risk_assessment | BadRequest | ServerError

definition getUser :: "database \<Rightarrow> string \<Rightarrow> user option" where
  "getUser db userId = users db userId"

text \<open>
  \<open>insertRiskAssessmentSchema.parse\<close>: \<open>userId\<close> and \<open>riskLevel\<close> are the \<open>notNull\<close> columns
  without a default, so they are required; every other key is optional.
\<close>

definition parse :: "collaborators \<Rightarrow> request_body \<Rightarrow> error + insert_risk_assessment" where
  "parse env obj =
     (case req_userId obj of
        None \<Rightarrow> Inl ZodError
      | Some uid \<Rightarrow>
          (case req_riskLevel obj of
             None \<Rightarrow> Inl ZodError
           | Some level \<Rightarrow>
               (let a = \<lparr>ins_userId = uid,
                          ins_bloodPressure = bloodPressure obj,
                          ins_weight = weight obj,
                          ins_babyMovement = babyMovement obj,
                          ins_symptoms = symptoms obj,
                          ins_riskLevel = level,
                          ins_riskFactors = req_riskFactors obj,
                          ins_recommendations = req_recommendations obj\<rparr>
                in if column_checks env a then Inr a else Inl ZodError)))"

text \<open>
  \<open>storage.createRiskAssessment\<close>: \<open>insert ... values ... returning\<close>. The column \<open>user_id\<close>
  references \<open>users.id\<close>, so the insert fails for an unknown user.
\<close>

definition createRiskAssessment ::
  "collaborators \<Rightarrow> database \<Rightarrow> insert_risk_assessment \<Rightarrow> error + (risk_assessment \<times> database)"
where
  "createRiskAssessment env db a =
     (if users db (ins_userId a) = None then Inl DatabaseError
      else
        (let newAssessment =
               \<lparr>ra_id = generated_id env,
                ra_userId = ins_userId a,
                ra_bloodPressure = ins_bloodPressure a,
                ra_weight = ins_weight a,
                ra_babyMovement = ins_babyMovement a,
                ra_symptoms = ins_symptoms a,
                ra_riskLevel = ins_riskLevel a,
                ra_riskFactors = ins_riskFactors a,
                ra_recommendations = ins_recommendations a\<rparr>
         in Inr (newAssessment, db\<lparr>riskAssessments := riskAssessments db @ [newAssessment]\<rparr>)))"

text \<open>\<open>user?.pregnancyWeeks\<close>\<close>

definition stored_pregnancyWeeks :: "user option \<Rightarrow> int option" where
  "stored_pregnancyWeeks u = (case u of None \<Rightarrow> None | Some x \<Rightarrow> user_pregnancyWeeks x)"

definition post_riskAssessments ::
  "collaborators \<Rightarrow> database \<Rightarrow> string \<Rightarrow> request_body \<Rightarrow> response \<times> database"
where
  "post_riskAssessments env db userId body =
     (let user = getUser db userId;
          riskAnalysis = assessRisk (body\<lparr>pregnancyWeeks := stored_pregnancyWeeks user\<rparr>);
          obj = body\<lparr>req_userId := Some userId,
                     req_riskLevel := Some (riskLevel riskAnalysis),
                     req_riskFactors := Some (riskFactors riskAnalysis),
                     req_recommendations := Some (recommendations riskAnalysis)\<rparr>
      in case parse env obj of
           Inl e \<Rightarrow> (BadRequest, db)
         | Inr assessmentData \<Rightarrow>
             (case createRiskAssessment env db assessmentData of
                Inl e \<Rightarrow> (ServerError, db)
              | Inr (assessment, db') \<Rightarrow> (Created assessment, db')))"

section \<open>Inputs used as examples\<close>

definition no_observation :: data where
  "no_observation =
     \<lparr>bloodPressure = None, weight = None, babyMovement = None, symptoms = None,
      pregnancyWeeks = None\<rparr>"

text \<open>Weight 5 kg in week 0 of the pregnancy.\<close>

definition zero_weeks_observation :: data where
  "zero_weeks_observation = no_observation\<lparr>weight := Some 5, pregnancyWeeks := Some 0\<rparr>"

text \<open>The same, with a blood pressure text that contains \<open>high\<close>.\<close>

definition high_bp_zero_weeks_observation :: data where
  "high_bp_zero_weeks_observation =
     no_observation\<lparr>bloodPressure := Some ''high'', weight := Some 5, pregnancyWeeks := Some 0\<rparr>"

text \<open>High blood pressure and 20 kg in week 10 (expected 5, threshold 7.5).\<close>

definition high_bp_weight_observation :: data where
  "high_bp_weight_observation =
     no_observation\<lparr>bloodPressure := Some ''140/90 high'', weight := Some 20,
       pregnancyWeeks := Some 10\<rparr>"

text \<open>A database with one user in week 10, and collaborators that accept every column.\<close>

definition sample_collaborators :: collaborators where
  "sample_collaborators = \<lparr>column_checks = (\<lambda>a. True), generated_id = ''ra-1''\<rparr>"

definition sample_database :: database where
  "sample_database =
     \<lparr>users = [''u1'' \<mapsto> \<lparr>user_id = ''u1'', user_pregnancyWeeks = Some 10\<rparr>],
      riskAssessments = []\<rparr>"

text \<open>
  A request body that sends its own classification (level \<open>low\<close>, a made-up factor),
  another user's id and week 40.
\<close>

definition sample_body :: request_body where
  "sample_body =
     \<lparr>bloodPressure = Some ''120/80'', weight = Some 20, babyMovement = Some ''active'',
      symptoms = None, pregnancyWeeks = Some 40,
      req_userId = Some ''someone-else'', req_riskLevel = Some ''low'',
      req_riskFactors = Some [''made up''], req_recommendations = Some ''none needed''\<rparr>"

section \<open>Properties of the engine\<close>

lemmas step_defs =
  step_bloodPressure_def step_weight_def step_babyMovement_def step_symptoms_def

lemmas trigger_defs =
  bloodPressure_triggers_def weight_triggers_def babyMovement_triggers_def
  symptoms_triggers_def

lemmas engine_defs =
  assessRisk_def final_locals_def initial_locals_def step_defs trigger_defs

subsection \<open>The substring test\<close>

text \<open>\<open>includes_str\<close> is the contiguous-sublist relation of the library.\<close>

lemma includes_str_sublist: "includes_str s t = sublist t s"
  by (induction s) (simp_all add: sublist_Cons_right)

lemma includes_str_nonempty: "includes_str s t \<Longrightarrow> t \<noteq> [] \<Longrightarrow> s \<noteq> []"
  by (cases s) simp_all

subsection \<open>The result in closed form\<close>

lemma final_level:
  "cur_riskLevel (final_locals d) =
     (if bloodPressure_triggers d \<or> babyMovement_triggers d \<or> symptoms_triggers d then ''high''
      else if weight_triggers d then ''medium'' else ''low'')"
  by (simp add: final_locals_def initial_locals_def step_defs)

lemma final_factors:
  "cur_riskFactors (final_locals d) =
     (if bloodPressure_triggers d then [''High blood pressure''] else []) @
     (if weight_triggers d then [''Excessive weight gain''] else []) @
     (if babyMovement_triggers d then [''Reduced fetal movement''] else []) @
     (if symptoms_triggers d then [''Bleeding symptoms''] else [])"
  by (simp add: final_locals_def initial_locals_def step_defs)

lemma assessRisk_level: "riskLevel (assessRisk d) = cur_riskLevel (final_locals d)"
  by (simp add: assessRisk_def Let_def)

lemma assessRisk_factors: "riskFactors (assessRisk d) = cur_riskFactors (final_locals d)"
  by (simp add: assessRisk_def Let_def)

lemma assessRisk_recommendations:
  "recommendations (assessRisk d) =
     (if cur_riskLevel (final_locals d) = ''high''
      then ''Please contact your healthcare provider immediately and schedule an urgent appointment.''
      else if cur_riskLevel (final_locals d) = ''medium''
      then ''Monitor symptoms closely and schedule a follow-up appointment within the week.''
      else ''Continue with regular prenatal care and maintain healthy habits.'')"
  by (simp add: assessRisk_def Let_def)

lemma severity_simps:
  "severity ''low'' = 0" "severity ''medium'' = 1" "severity ''high'' = 2"
  by (simp_all add: severity_def)

text \<open>Two inputs on which the four conditions agree give the same result.\<close>

lemma assessRisk_eqI:
  assumes "bloodPressure_triggers d = bloodPressure_triggers d'"
    and "weight_triggers d = weight_triggers d'"
    and "babyMovement_triggers d = babyMovement_triggers d'"
    and "symptoms_triggers d = symptoms_triggers d'"
  shows "assessRisk d = assessRisk d'"
  by (simp add: assessRisk_def final_locals_def step_defs assms)

text \<open>The engine reads the five observation fields and nothing else of its argument.\<close>

lemma triggers_truncate:
  "bloodPressure_triggers (data.truncate d) = bloodPressure_triggers d"
  "weight_triggers (data.truncate d) = weight_triggers d"
  "babyMovement_triggers (data.truncate d) = babyMovement_triggers d"
  "symptoms_triggers (data.truncate d) = symptoms_triggers d"
  by (simp_all add: trigger_defs data.truncate_def split: option.split)

lemma assessRisk_truncate: "assessRisk (data.truncate d) = assessRisk d"
  by (rule assessRisk_eqI) (simp_all add: triggers_truncate)

subsection \<open>The weight rule\<close>

text \<open>
  C1, as stated: whenever weight and pregnancyWeeks are both present, the value \<open>0\<close>
  included, the weight rule fires exactly when weight > 1.5 * (0.5 * pregnancyWeeks).
  This fails for weight 5 in week 0: both are present and 5 exceeds the threshold 0, but
  \<open>data.weight && data.pregnancyWeeks\<close> is falsy, the rule is skipped, and the result is
  \<open>low\<close> without a risk factor.
\<close>

theorem weight_rule_zero_weeks_skipped:
  "weight zero_weeks_observation = Some 5 \<and>
   pregnancyWeeks zero_weeks_observation = Some 0 \<and>
   (5 :: rat) > (3 / 2) * ((1 / 2) * of_int 0) \<and>
   ''Excessive weight gain'' \<notin> set (riskFactors (assessRisk zero_weeks_observation)) \<and>
   riskLevel (assessRisk zero_weeks_observation) = ''low''"
  by (simp add: zero_weeks_observation_def no_observation_def engine_defs)

text \<open>
  C1, amended: when weight and pregnancyWeeks are both present, the weight rule fires
  exactly when both are different from 0 and weight > 1.5 * (0.5 * pregnancyWeeks). When it
  fires it appends "Excessive weight gain" to riskFactors and sets riskLevel to \<open>high\<close> if
  it was \<open>high\<close> already and to \<open>medium\<close> otherwise; when it does not fire (in particular
  when weight or pregnancyWeeks is 0) it changes nothing. "Excessive weight gain" is among
  the returned riskFactors exactly when the rule fired.
\<close>

theorem weight_rule:
  assumes "weight d = Some w" and "pregnancyWeeks d = Some p"
  shows "step_weight d st =
           (if w \<noteq> 0 \<and> p \<noteq> 0 \<and> w > (3 / 2) * ((1 / 2) * of_int p)
            then \<lparr>cur_riskLevel = (if cur_riskLevel st = ''high'' then ''high'' else ''medium''),
                  cur_riskFactors = cur_riskFactors st @ [''Excessive weight gain'']\<rparr>
            else st)
         \<and> (''Excessive weight gain'' \<in> set (riskFactors (assessRisk d)))
             = (w \<noteq> 0 \<and> p \<noteq> 0 \<and> w > (3 / 2) * ((1 / 2) * of_int p))"
proof -
  have trig: "weight_triggers d = (w \<noteq> 0 \<and> p \<noteq> 0 \<and> w > (3 / 2) * ((1 / 2) * of_int p))"
    using assms by (simp add: weight_triggers_def Let_def mult.commute)
  have step: "step_weight d st =
           (if w \<noteq> 0 \<and> p \<noteq> 0 \<and> w > (3 / 2) * ((1 / 2) * of_int p)
            then \<lparr>cur_riskLevel = (if cur_riskLevel st = ''high'' then ''high'' else ''medium''),
                  cur_riskFactors = cur_riskFactors st @ [''Excessive weight gain'']\<rparr>
            else st)"
    unfolding step_weight_def trig by simp
  have mem: "(''Excessive weight gain'' \<in> set (riskFactors (assessRisk d))) = weight_triggers d"
    by (simp add: assessRisk_factors final_factors)
  show ?thesis using step mem trig by simp
qed

text \<open>Weight 20 in week 10: expected 5, threshold 7.5, the rule fires and the level is \<open>medium\<close>.\<close>

theorem weight_rule_witness:
  "step_weight (no_observation\<lparr>weight := Some 20, pregnancyWeeks := Some 10\<rparr>) initial_locals
     = \<lparr>cur_riskLevel = ''medium'', cur_riskFactors = [''Excessive weight gain'']\<rparr>
   \<and> ''Excessive weight gain'' \<in>
       set (riskFactors (assessRisk (no_observation\<lparr>weight := Some 20, pregnancyWeeks := Some 10\<rparr>)))
   \<and> riskLevel (assessRisk (no_observation\<lparr>weight := Some 20, pregnancyWeeks := Some 10\<rparr>))
       = ''medium''"
proof -
  let ?d = "no_observation\<lparr>weight := Some 20, pregnancyWeeks := Some 10\<rparr>"
  have w: "weight ?d = Some 20" and p: "pregnancyWeeks ?d = Some 10"
    by (simp_all add: no_observation_def)
  have lev: "riskLevel (assessRisk ?d) = ''medium''"
    by (simp add: no_observation_def engine_defs)
  from weight_rule [OF w p, of initial_locals] lev show ?thesis
    by (simp add: initial_locals_def)
qed

subsection \<open>The level is only raised\<close>

text \<open>
  C3. No statement lowers the level: after each of the four statements the severity of
  riskLevel is at least what it was before, from any state. The final riskLevel is one of
  \<open>low\<close>, \<open>medium\<close>, \<open>high\<close>, and its severity is the maximum of the severities of the
  rules that triggered (and of \<open>low\<close>, the initial level); it is \<open>low\<close> when no rule
  triggers.
\<close>

theorem riskLevel_monotone_max:
  "severity (cur_riskLevel st) \<le> severity (cur_riskLevel (step_bloodPressure d st))
   \<and> severity (cur_riskLevel st) \<le> severity (cur_riskLevel (step_weight d st))
   \<and> severity (cur_riskLevel st) \<le> severity (cur_riskLevel (step_babyMovement d st))
   \<and> severity (cur_riskLevel st) \<le> severity (cur_riskLevel (step_symptoms d st))
   \<and> riskLevel (assessRisk d) \<in> {''low'', ''medium'', ''high''}
   \<and> severity (riskLevel (assessRisk d)) = Max (set (0 # map severity (triggered_levels d)))
   \<and> (triggered_levels d = [] \<longrightarrow> riskLevel (assessRisk d) = ''low'')"
proof -
  have bound: "severity l \<le> 2" for l
    by (simp add: severity_def)
  have s1: "severity (cur_riskLevel st) \<le> severity (cur_riskLevel (step_bloodPressure d st))"
    using bound [of "cur_riskLevel st"] by (simp add: step_bloodPressure_def severity_simps)
  have s2: "severity (cur_riskLevel st) \<le> severity (cur_riskLevel (step_weight d st))"
    by (simp add: step_weight_def severity_def)
  have s3: "severity (cur_riskLevel st) \<le> severity (cur_riskLevel (step_babyMovement d st))"
    using bound [of "cur_riskLevel st"] by (simp add: step_babyMovement_def severity_simps)
  have s4: "severity (cur_riskLevel st) \<le> severity (cur_riskLevel (step_symptoms d st))"
    using bound [of "cur_riskLevel st"] by (simp add: step_symptoms_def severity_simps)
  have range: "riskLevel (assessRisk d) \<in> {''low'', ''medium'', ''high''}"
    by (simp add: assessRisk_level final_level)
  have mx: "severity (riskLevel (assessRisk d)) = Max (set (0 # map severity (triggered_levels d)))"
    by (cases "bloodPressure_triggers d"; cases "weight_triggers d";
        cases "babyMovement_triggers d"; cases "symptoms_triggers d")
      (simp_all add: assessRisk_level final_level triggered_levels_def severity_simps)
  have none: "triggered_levels d = [] \<longrightarrow> riskLevel (assessRisk d) = ''low''"
    by (simp add: assessRisk_level final_level triggered_levels_def)
  from s1 s2 s3 s4 range mx none show ?thesis by blast
qed

text \<open>
  No observation: no rule triggers and the level is \<open>low\<close>. High blood pressure with
  20 kg in week 10: the rules of severity 2 and 1 trigger and the level has severity 2.
\<close>

theorem riskLevel_monotone_max_witness:
  "triggered_levels no_observation = []
   \<and> riskLevel (assessRisk no_observation) = ''low''
   \<and> severity (cur_riskLevel initial_locals)
       \<le> severity (cur_riskLevel (step_bloodPressure high_bp_weight_observation initial_locals))
   \<and> triggered_levels high_bp_weight_observation = [''high'', ''medium'']
   \<and> severity (riskLevel (assessRisk high_bp_weight_observation)) = 2"
proof -
  have t0: "triggered_levels no_observation = []"
    by (simp add: triggered_levels_def no_observation_def engine_defs)
  have t1: "triggered_levels high_bp_weight_observation = [''high'', ''medium'']"
    by (simp add: triggered_levels_def high_bp_weight_observation_def no_observation_def
        engine_defs)
  from riskLevel_monotone_max [of initial_locals no_observation]
    riskLevel_monotone_max [of initial_locals high_bp_weight_observation] t0 t1
  show ?thesis by (simp add: severity_simps)
qed

subsection \<open>Blood pressure and weight together\<close>

text \<open>
  C4, as stated: when the blood pressure text contains \<open>high\<close> or \<open>140\<close>, weight and
  pregnancyWeeks are present with weight > 1.5 * 0.5 * pregnancyWeeks, and no other rule
  triggers, riskFactors is ["High blood pressure", "Excessive weight gain"]. This fails
  for blood pressure \<open>high\<close> with weight 5 in week 0: every condition of the claim holds,
  but the weight rule is skipped for week 0 and riskFactors is ["High blood pressure"].
\<close>

theorem combined_zero_weeks_single_factor:
  "bloodPressure high_bp_zero_weeks_observation = Some ''high''
   \<and> includes_str ''high'' ''high''
   \<and> weight high_bp_zero_weeks_observation = Some 5
   \<and> pregnancyWeeks high_bp_zero_weeks_observation = Some 0
   \<and> (5 :: rat) > (3 / 2) * ((1 / 2) * of_int 0)
   \<and> babyMovement high_bp_zero_weeks_observation = None
   \<and> symptoms high_bp_zero_weeks_observation = None
   \<and> riskFactors (assessRisk high_bp_zero_weeks_observation) = [''High blood pressure'']
   \<and> riskFactors (assessRisk high_bp_zero_weeks_observation)
       \<noteq> [''High blood pressure'', ''Excessive weight gain'']"
  by (simp add: high_bp_zero_weeks_observation_def no_observation_def engine_defs)

text \<open>
  C4, amended: when the blood pressure text contains \<open>high\<close> or \<open>140\<close>, weight and
  pregnancyWeeks are present and different from 0 with
  weight > 1.5 * 0.5 * pregnancyWeeks, and neither the fetal-movement rule nor the bleeding
  rule triggers, the final riskLevel is \<open>high\<close> and riskFactors is exactly
  ["High blood pressure", "Excessive weight gain"], in this order. In general riskFactors
  has one entry for each rule whose condition held, in the order of the rules, and is
  empty when none held.
\<close>

theorem combined_bloodPressure_weight:
  assumes bp: "bloodPressure d = Some b" "includes_str b ''high'' \<or> includes_str b ''140''"
    and w: "weight d = Some w" "pregnancyWeeks d = Some p" "w \<noteq> 0" "p \<noteq> 0"
      "w > (3 / 2) * ((1 / 2) * of_int p)"
    and others: "\<not> babyMovement_triggers d" "\<not> symptoms_triggers d"
  shows "riskLevel (assessRisk d) = ''high''
       \<and> riskFactors (assessRisk d) = [''High blood pressure'', ''Excessive weight gain'']
       \<and> (\<forall>e :: data. riskFactors (assessRisk e) =
           (if bloodPressure_triggers e then [''High blood pressure''] else []) @
           (if weight_triggers e then [''Excessive weight gain''] else []) @
           (if babyMovement_triggers e then [''Reduced fetal movement''] else []) @
           (if symptoms_triggers e then [''Bleeding symptoms''] else []))"
proof -
  have "b \<noteq> []"
    using bp(2) includes_str_nonempty by fastforce
  with bp have t1: "bloodPressure_triggers d"
    by (simp add: bloodPressure_triggers_def)
  from w have t2: "weight_triggers d"
    by (simp add: weight_triggers_def Let_def mult.commute)
  have general: "riskFactors (assessRisk e) =
           (if bloodPressure_triggers e then [''High blood pressure''] else []) @
           (if weight_triggers e then [''Excessive weight gain''] else []) @
           (if babyMovement_triggers e then [''Reduced fetal movement''] else []) @
           (if symptoms_triggers e then [''Bleeding symptoms''] else [])" for e :: data
    by (simp only: assessRisk_factors final_factors)
  have "riskLevel (assessRisk d) = ''high''"
    using t1 by (simp add: assessRisk_level final_level)
  moreover have "riskFactors (assessRisk d) = [''High blood pressure'', ''Excessive weight gain'']"
    using t1 t2 others by (simp add: assessRisk_factors final_factors)
  ultimately show ?thesis
    using general by blast
qed

theorem combined_bloodPressure_weight_witness:
  "riskLevel (assessRisk high_bp_weight_observation) = ''high''
   \<and> riskFactors (assessRisk high_bp_weight_observation)
       = [''High blood pressure'', ''Excessive weight gain'']
   \<and> riskFactors (assessRisk no_observation) = []"
proof -
  let ?d = high_bp_weight_observation
  have 1: "bloodPressure ?d = Some ''140/90 high''"
    and 2: "includes_str ''140/90 high'' ''high'' \<or> includes_str ''140/90 high'' ''140''"
    and 3: "weight ?d = Some 20" and 4: "pregnancyWeeks ?d = Some 10"
    and 5: "(20 :: rat) \<noteq> 0" and 6: "(10 :: int) \<noteq> 0"
    and 7: "(20 :: rat) > (3 / 2) * ((1 / 2) * of_int 10)"
    and 8: "\<not> babyMovement_triggers ?d" and 9: "\<not> symptoms_triggers ?d"
    by (simp_all add: high_bp_weight_observation_def no_observation_def
        babyMovement_triggers_def symptoms_triggers_def)
  note r = combined_bloodPressure_weight [OF 1 2 3 4 5 6 7 8 9]
  have level: "riskLevel (assessRisk ?d) = ''high''"
    using r by (rule conjunct1)
  have both: "riskFactors (assessRisk ?d) = [''High blood pressure'', ''Excessive weight gain'']"
    using r by (rule conjunct1 [OF conjunct2])
  have "\<forall>e :: data. riskFactors (assessRisk e) =
           (if bloodPressure_triggers e then [''High blood pressure''] else []) @
           (if weight_triggers e then [''Excessive weight gain''] else []) @
           (if babyMovement_triggers e then [''Reduced fetal movement''] else []) @
           (if symptoms_triggers e then [''Bleeding symptoms''] else [])"
    using r by (rule conjunct2 [OF conjunct2])
  then have "riskFactors (assessRisk no_observation) =
           (if bloodPressure_triggers no_observation then [''High blood pressure''] else []) @
           (if weight_triggers no_observation then [''Excessive weight gain''] else []) @
           (if babyMovement_triggers no_observation then [''Reduced fetal movement''] else []) @
           (if symptoms_triggers no_observation then [''Bleeding symptoms''] else [])"
    by (rule spec)
  then have none: "riskFactors (assessRisk no_observation) = []"
    by (simp add: trigger_defs no_observation_def)
  from level both none show ?thesis
    by simp
qed

subsection \<open>The recommendation text\<close>

text \<open>
  C5. \<open>assessRisk\<close> has no failing path: on every input it returns a result, whose
  riskLevel is \<open>high\<close>, \<open>medium\<close> or \<open>low\<close> and whose recommendations string is the one
  that belongs to this level: the "Please contact your healthcare provider immediately
  and schedule an urgent appointment." text for \<open>high\<close>, the "Monitor symptoms closely and
  schedule a follow-up appointment within the week." text for \<open>medium\<close>, the "Continue with
  regular prenatal care and maintain healthy habits." text for \<open>low\<close>.
\<close>

theorem recommendations_by_level:
  "(riskLevel (assessRisk d) = ''high'' \<and>
      recommendations (assessRisk d) =
        ''Please contact your healthcare provider immediately and schedule an urgent appointment.'')
   \<or> (riskLevel (assessRisk d) = ''medium'' \<and>
      recommendations (assessRisk d) =
        ''Monitor symptoms closely and schedule a follow-up appointment within the week.'')
   \<or> (riskLevel (assessRisk d) = ''low'' \<and>
      recommendations (assessRisk d) =
        ''Continue with regular prenatal care and maintain healthy habits.'')"
proof (cases "bloodPressure_triggers d \<or> babyMovement_triggers d \<or> symptoms_triggers d")
  case True
  then have "cur_riskLevel (final_locals d) = ''high''"
    by (simp add: final_level)
  then show ?thesis
    by (simp add: assessRisk_level assessRisk_recommendations)
next
  case False
  then have "cur_riskLevel (final_locals d) = (if weight_triggers d then ''medium'' else ''low'')"
    by (simp add: final_level)
  then show ?thesis
    by (simp add: assessRisk_level assessRisk_recommendations)
qed

subsection \<open>The blood pressure rule\<close>

text \<open>
  C6. When bloodPressure is present and its text contains \<open>high\<close> or \<open>140\<close> (compared
  character by character, so case-sensitively), the blood pressure statement appends
  "High blood pressure" to riskFactors and sets the level to \<open>high\<close>; the final riskLevel
  is \<open>high\<close> and "High blood pressure" is the first of the returned riskFactors.
\<close>

theorem high_bloodPressure_rule:
  assumes "bloodPressure d = Some b"
    and "includes_str b ''high'' \<or> includes_str b ''140''"
  shows "step_bloodPressure d st =
           \<lparr>cur_riskLevel = ''high'',
            cur_riskFactors = cur_riskFactors st @ [''High blood pressure'']\<rparr>
       \<and> riskLevel (assessRisk d) = ''high''
       \<and> hd (riskFactors (assessRisk d)) = ''High blood pressure''
       \<and> ''High blood pressure'' \<in> set (riskFactors (assessRisk d))"
proof -
  have "b \<noteq> []"
    using assms(2) includes_str_nonempty by fastforce
  with assms have trig: "bloodPressure_triggers d"
    by (simp add: bloodPressure_triggers_def)
  have step: "step_bloodPressure d st =
           \<lparr>cur_riskLevel = ''high'',
            cur_riskFactors = cur_riskFactors st @ [''High blood pressure'']\<rparr>"
    using trig by (simp add: step_bloodPressure_def)
  have level: "riskLevel (assessRisk d) = ''high''"
    using trig by (simp add: assessRisk_level final_level)
  have factors: "riskFactors (assessRisk d) =
      ''High blood pressure'' #
        ((if weight_triggers d then [''Excessive weight gain''] else []) @
         (if babyMovement_triggers d then [''Reduced fetal movement''] else []) @
         (if symptoms_triggers d then [''Bleeding symptoms''] else []))"
    using trig by (simp add: assessRisk_factors final_factors)
  show ?thesis
    using step level by (simp add: factors)
qed

text \<open>
  Blood pressure "140/90 high" gives \<open>high\<close> with "High blood pressure" among the
  factors; "HIGH 139/85" contains neither \<open>high\<close> nor \<open>140\<close> and gives \<open>low\<close>.
\<close>

theorem high_bloodPressure_rule_witness:
  "riskLevel (assessRisk (no_observation\<lparr>bloodPressure := Some ''140/90 high''\<rparr>)) = ''high''
   \<and> ''High blood pressure'' \<in>
        set (riskFactors (assessRisk (no_observation\<lparr>bloodPressure := Some ''140/90 high''\<rparr>)))
   \<and> riskLevel (assessRisk (no_observation\<lparr>bloodPressure := Some ''HIGH 139/85''\<rparr>)) = ''low''"
proof -
  let ?d = "no_observation\<lparr>bloodPressure := Some ''140/90 high''\<rparr>"
  have 1: "bloodPressure ?d = Some ''140/90 high''"
    by simp
  have 2: "includes_str ''140/90 high'' ''high'' \<or> includes_str ''140/90 high'' ''140''"
    by simp
  have 3: "riskLevel (assessRisk (no_observation\<lparr>bloodPressure := Some ''HIGH 139/85''\<rparr>)) = ''low''"
    by (simp add: no_observation_def engine_defs)
  from high_bloodPressure_rule [OF 1 2, of initial_locals] 3 show ?thesis
    by simp
qed

subsection \<open>The bleeding rule\<close>

text \<open>
  C7. When symptoms is present and its lower-cased text contains \<open>bleeding\<close>, the last
  statement appends "Bleeding symptoms" to riskFactors and sets the level to \<open>high\<close>; the
  final riskLevel is \<open>high\<close> and "Bleeding symptoms" is the last of the returned
  riskFactors.
\<close>

theorem bleeding_rule:
  assumes "symptoms d = Some s"
    and "includes_str (toLowerCase s) ''bleeding''"
  shows "step_symptoms d st =
           \<lparr>cur_riskLevel = ''high'',
            cur_riskFactors = cur_riskFactors st @ [''Bleeding symptoms'']\<rparr>
       \<and> riskLevel (assessRisk d) = ''high''
       \<and> last (riskFactors (assessRisk d)) = ''Bleeding symptoms''
       \<and> ''Bleeding symptoms'' \<in> set (riskFactors (assessRisk d))"
proof -
  have "toLowerCase s \<noteq> []"
    using assms(2) includes_str_nonempty by fastforce
  then have "s \<noteq> []"
    by (auto simp: toLowerCase_def)
  with assms have trig: "symptoms_triggers d"
    by (simp add: symptoms_triggers_def)
  have step: "step_symptoms d st =
           \<lparr>cur_riskLevel = ''high'',
            cur_riskFactors = cur_riskFactors st @ [''Bleeding symptoms'']\<rparr>"
    using trig by (simp add: step_symptoms_def)
  have level: "riskLevel (assessRisk d) = ''high''"
    using trig by (simp add: assessRisk_level final_level)
  have factors: "riskFactors (assessRisk d) =
      ((if bloodPressure_triggers d then [''High blood pressure''] else []) @
       (if weight_triggers d then [''Excessive weight gain''] else []) @
       (if babyMovement_triggers d then [''Reduced fetal movement''] else [])) @
      [''Bleeding symptoms'']"
    using trig by (simp add: assessRisk_factors final_factors)
  have "last (riskFactors (assessRisk d)) = ''Bleeding symptoms''"
    unfolding factors by (rule last_snoc)
  moreover have "''Bleeding symptoms'' \<in> set (riskFactors (assessRisk d))"
    unfolding factors by simp
  ultimately show ?thesis
    using step level by simp
qed

text \<open>Symptoms "Heavy Bleeding today": the capital \<open>B\<close> is lower-cased before the test.\<close>

theorem bleeding_rule_witness:
  "toLowerCase ''Heavy Bleeding today'' = ''heavy bleeding today''
   \<and> riskLevel (assessRisk (no_observation\<lparr>symptoms := Some ''Heavy Bleeding today''\<rparr>)) = ''high''
   \<and> ''Bleeding symptoms'' \<in>
        set (riskFactors (assessRisk (no_observation\<lparr>symptoms := Some ''Heavy Bleeding today''\<rparr>)))"
proof -
  let ?d = "no_observation\<lparr>symptoms := Some ''Heavy Bleeding today''\<rparr>"
  have 0: "toLowerCase ''Heavy Bleeding today'' = ''heavy bleeding today''"
    by code_simp
  have 1: "symptoms ?d = Some ''Heavy Bleeding today''"
    by simp
  have 2: "includes_str (toLowerCase ''Heavy Bleeding today'') ''bleeding''"
    unfolding 0 by simp
  from bleeding_rule [OF 1 2, of initial_locals] 0 show ?thesis
    by simp
qed

subsection \<open>Absent and empty fields\<close>

text \<open>
  C8. When every optional field (bloodPressure, weight, babyMovement, symptoms,
  pregnancyWeeks) is absent, the result is exactly the level \<open>low\<close>, no risk factors, and
  the recommendation text for \<open>low\<close>.
\<close>

theorem assessRisk_all_absent:
  "assessRisk \<lparr>bloodPressure = None, weight = None, babyMovement = None, symptoms = None,
      pregnancyWeeks = None\<rparr>
   = \<lparr>riskLevel = ''low'', riskFactors = [],
      recommendations = ''Continue with regular prenatal care and maintain healthy habits.''\<rparr>"
  by (simp add: engine_defs)

text \<open>
  C9. The babyMovement value \<open>none\<close> never raises the level: the fetal-movement statement
  leaves the locals as they are, and the result is the one for an absent babyMovement,
  whatever the other fields are. Only the value \<open>reduced\<close> puts "Reduced fetal movement"
  among the riskFactors. With babyMovement \<open>none\<close> and every other field absent the result
  is \<open>low\<close> with no risk factor.
\<close>

theorem babyMovement_none_no_trigger:
  "step_babyMovement (d\<lparr>babyMovement := Some ''none''\<rparr>) st = st
   \<and> assessRisk (d\<lparr>babyMovement := Some ''none''\<rparr>) = assessRisk (d\<lparr>babyMovement := None\<rparr>)
   \<and> (''Reduced fetal movement'' \<in> set (riskFactors (assessRisk d)))
       = (babyMovement d = Some ''reduced'')
   \<and> assessRisk (no_observation\<lparr>babyMovement := Some ''none''\<rparr>) =
       \<lparr>riskLevel = ''low'', riskFactors = [],
        recommendations = ''Continue with regular prenatal care and maintain healthy habits.''\<rparr>"
proof -
  have 1: "step_babyMovement (d\<lparr>babyMovement := Some ''none''\<rparr>) st = st"
    by (simp add: step_babyMovement_def babyMovement_triggers_def)
  have 2: "assessRisk (d\<lparr>babyMovement := Some ''none''\<rparr>) = assessRisk (d\<lparr>babyMovement := None\<rparr>)"
    by (rule assessRisk_eqI) (simp_all add: trigger_defs split: option.split)
  have 3: "(''Reduced fetal movement'' \<in> set (riskFactors (assessRisk d)))
       = (babyMovement d = Some ''reduced'')"
    by (simp add: assessRisk_factors final_factors babyMovement_triggers_def)
  have 4: "assessRisk (no_observation\<lparr>babyMovement := Some ''none''\<rparr>) =
       \<lparr>riskLevel = ''low'', riskFactors = [],
        recommendations = ''Continue with regular prenatal care and maintain healthy habits.''\<rparr>"
    by (simp add: no_observation_def engine_defs)
  from 1 2 3 4 show ?thesis by blast
qed

text \<open>
  C10. An empty text is treated as an absent one: for every input, the result with
  bloodPressure (or symptoms, or both) set to the empty string is the result with the
  field absent.
\<close>

theorem empty_text_as_absent:
  "assessRisk (d\<lparr>bloodPressure := Some []\<rparr>) = assessRisk (d\<lparr>bloodPressure := None\<rparr>)
   \<and> assessRisk (d\<lparr>symptoms := Some []\<rparr>) = assessRisk (d\<lparr>symptoms := None\<rparr>)
   \<and> assessRisk (d\<lparr>bloodPressure := Some [], symptoms := Some []\<rparr>)
       = assessRisk (d\<lparr>bloodPressure := None, symptoms := None\<rparr>)"
proof -
  have 1: "assessRisk (d\<lparr>bloodPressure := Some []\<rparr>) = assessRisk (d\<lparr>bloodPressure := None\<rparr>)"
    by (rule assessRisk_eqI) (simp_all add: trigger_defs split: option.split)
  have 2: "assessRisk (d\<lparr>symptoms := Some []\<rparr>) = assessRisk (d\<lparr>symptoms := None\<rparr>)"
    by (rule assessRisk_eqI) (simp_all add: trigger_defs split: option.split)
  have 3: "assessRisk (d\<lparr>bloodPressure := Some [], symptoms := Some []\<rparr>)
       = assessRisk (d\<lparr>bloodPressure := None, symptoms := None\<rparr>)"
    by (rule assessRisk_eqI) (simp_all add: trigger_defs split: option.split)
  from 1 2 3 show ?thesis by blast
qed

section \<open>Properties of the route\<close>

lemma post_riskAssessments_Created:
  assumes "post_riskAssessments env db userId body = (Created row, db')"
  shows "ra_riskLevel row =
           riskLevel (assessRisk (body\<lparr>pregnancyWeeks := stored_pregnancyWeeks (getUser db userId)\<rparr>))"
    and "ra_riskFactors row =
           Some (riskFactors (assessRisk (body\<lparr>pregnancyWeeks := stored_pregnancyWeeks (getUser db userId)\<rparr>)))"
    and "ra_recommendations row =
           Some (recommendations (assessRisk (body\<lparr>pregnancyWeeks := stored_pregnancyWeeks (getUser db userId)\<rparr>)))"
    and "ra_userId row = userId"
    and "riskAssessments db' = riskAssessments db @ [row]"
  using assms
  by (auto simp add: post_riskAssessments_def parse_def createRiskAssessment_def Let_def
      split: sum.splits if_splits prod.splits)

text \<open>
  Keys of the body that the handler overwrites (\<open>pregnancyWeeks\<close> for the engine; \<open>userId\<close>,
  \<open>riskLevel\<close>, \<open>riskFactors\<close>, \<open>recommendations\<close> for the schema) do not reach the outcome.
\<close>

lemma post_riskAssessments_ignores_client_fields:
  "post_riskAssessments env db userId
     (body\<lparr>pregnancyWeeks := pw, req_userId := cu, req_riskLevel := cl, req_riskFactors := cf,
           req_recommendations := cr\<rparr>)
   = post_riskAssessments env db userId body"
proof -
  have "assessRisk (body\<lparr>pregnancyWeeks := pw, req_userId := cu, req_riskLevel := cl,
            req_riskFactors := cf, req_recommendations := cr,
            pregnancyWeeks := stored_pregnancyWeeks (getUser db userId)\<rparr>)
      = assessRisk (body\<lparr>pregnancyWeeks := stored_pregnancyWeeks (getUser db userId)\<rparr>)"
    by (rule assessRisk_eqI) (simp_all add: trigger_defs split: option.split)
  then show ?thesis
    by (simp add: post_riskAssessments_def parse_def Let_def)
qed

text \<open>
  C2. Whenever the handler stores a row (it answers 201), the row's riskLevel, riskFactors
  and recommendations are the outputs of \<open>assessRisk\<close> on the observation fields of the
  request body together with the pregnancyWeeks stored for the user, and the row is
  appended to the table. The outcome is the same whatever the body carries under
  \<open>riskLevel\<close>, \<open>riskFactors\<close>, \<open>recommendations\<close>, \<open>userId\<close> and \<open>pregnancyWeeks\<close>.
\<close>

theorem stored_classification_is_engine_output:
  assumes "post_riskAssessments env db userId body = (Created row, db')"
  shows "ra_riskLevel row =
           riskLevel (assessRisk
             \<lparr>bloodPressure = bloodPressure body, weight = weight body,
              babyMovement = babyMovement body, symptoms = symptoms body,
              pregnancyWeeks = stored_pregnancyWeeks (users db userId)\<rparr>)
       \<and> ra_riskFactors row =
           Some (riskFactors (assessRisk
             \<lparr>bloodPressure = bloodPressure body, weight = weight body,
              babyMovement = babyMovement body, symptoms = symptoms body,
              pregnancyWeeks = stored_pregnancyWeeks (users db userId)\<rparr>))
       \<and> ra_recommendations row =
           Some (recommendations (assessRisk
             \<lparr>bloodPressure = bloodPressure body, weight = weight body,
              babyMovement = babyMovement body, symptoms = symptoms body,
              pregnancyWeeks = stored_pregnancyWeeks (users db userId)\<rparr>))
       \<and> riskAssessments db' = riskAssessments db @ [row]
       \<and> (\<forall>pw cu cl cf cr.
            post_riskAssessments env db userId
              (body\<lparr>pregnancyWeeks := pw, req_userId := cu, req_riskLevel := cl,
                    req_riskFactors := cf, req_recommendations := cr\<rparr>)
            = (Created row, db'))"
proof -
  let ?input = "\<lparr>bloodPressure = bloodPressure body, weight = weight body,
              babyMovement = babyMovement body, symptoms = symptoms body,
              pregnancyWeeks = stored_pregnancyWeeks (users db userId)\<rparr>"
  have "data.truncate (body\<lparr>pregnancyWeeks := stored_pregnancyWeeks (getUser db userId)\<rparr>) = ?input"
    by (simp add: data.truncate_def getUser_def)
  then have input: "assessRisk (body\<lparr>pregnancyWeeks := stored_pregnancyWeeks (getUser db userId)\<rparr>)
      = assessRisk ?input"
    using assessRisk_truncate [of "body\<lparr>pregnancyWeeks := stored_pregnancyWeeks (getUser db userId)\<rparr>"]
    by simp
  note c = post_riskAssessments_Created [OF assms]
  have indep: "\<forall>pw cu cl cf cr.
            post_riskAssessments env db userId
              (body\<lparr>pregnancyWeeks := pw, req_userId := cu, req_riskLevel := cl,
                    req_riskFactors := cf, req_recommendations := cr\<rparr>)
            = (Created row, db')"
    using assms by (simp only: post_riskAssessments_ignores_client_fields) simp
  show ?thesis
    using c(1,2,3,5) indep unfolding input by blast
qed

text \<open>
  The sample body claims level \<open>low\<close> and week 40; the stored row has level \<open>medium\<close> with
  "Excessive weight gain", computed from 20 kg and the user's stored week 10.
\<close>

theorem stored_classification_is_engine_output_witness:
  "post_riskAssessments sample_collaborators sample_database ''u1'' sample_body =
     (Created
        \<lparr>ra_id = ''ra-1'', ra_userId = ''u1'', ra_bloodPressure = Some ''120/80'',
         ra_weight = Some 20, ra_babyMovement = Some ''active'', ra_symptoms = None,
         ra_riskLevel = ''medium'', ra_riskFactors = Some [''Excessive weight gain''],
         ra_recommendations =
           Some ''Monitor symptoms closely and schedule a follow-up appointment within the week.''\<rparr>,
      sample_database\<lparr>riskAssessments :=
        [\<lparr>ra_id = ''ra-1'', ra_userId = ''u1'', ra_bloodPressure = Some ''120/80'',
          ra_weight = Some 20, ra_babyMovement = Some ''active'', ra_symptoms = None,
          ra_riskLevel = ''medium'', ra_riskFactors = Some [''Excessive weight gain''],
          ra_recommendations =
            Some ''Monitor symptoms closely and schedule a follow-up appointment within the week.''\<rparr>]\<rparr>)
   \<and> riskLevel (assessRisk
        \<lparr>bloodPressure = Some ''120/80'', weight = Some 20, babyMovement = Some ''active'',
         symptoms = None, pregnancyWeeks = Some 10\<rparr>) = ''medium''
   \<and> req_riskLevel sample_body = Some ''low''"
proof -
  let ?row = "\<lparr>ra_id = ''ra-1'', ra_userId = ''u1'', ra_bloodPressure = Some ''120/80'',
         ra_weight = Some 20, ra_babyMovement = Some ''active'', ra_symptoms = None,
         ra_riskLevel = ''medium'', ra_riskFactors = Some [''Excessive weight gain''],
         ra_recommendations =
           Some ''Monitor symptoms closely and schedule a follow-up appointment within the week.''\<rparr>"
  have run: "post_riskAssessments sample_collaborators sample_database ''u1'' sample_body =
     (Created ?row, sample_database\<lparr>riskAssessments := [?row]\<rparr>)"
    by (simp add: post_riskAssessments_def parse_def createRiskAssessment_def getUser_def
        stored_pregnancyWeeks_def sample_collaborators_def sample_database_def sample_body_def
        Let_def engine_defs)
  have body: "bloodPressure sample_body = Some ''120/80''" "weight sample_body = Some 20"
    "babyMovement sample_body = Some ''active''" "symptoms sample_body = None"
    "req_riskLevel sample_body = Some ''low''"
    by (simp_all add: sample_body_def)
  have stored: "stored_pregnancyWeeks (users sample_database ''u1'') = Some 10"
    by (simp add: stored_pregnancyWeeks_def sample_database_def)
  from stored_classification_is_engine_output [OF run] run body stored show ?thesis
    by simp
qed

end
